theory Spec2Isabelle
  imports Complex_Main "HOL-Library.Log_Nat"
begin

section \<open>The paper-trading ledger of \<^verbatim>\<open>src/App.tsx\<close>\<close>

text \<open>
  The ledger is the React state of the component \<^verbatim>\<open>App\<close>: a cash balance, a list of
  entries (positions, most recent first), an id counter and an optional series of history
  points. Every action of the component is a call \<^verbatim>\<open>setState(s => ...)\<close> with a pure
  updater; the updaters are embedded here one by one.

  The numbers of the state are a type parameter \<open>'n\<close>, and the updaters are embedded
  twice. Over \<^typ>\<open>real\<close> the arithmetic is the exact one: these updaters serve for what
  does not depend on rounding (which branch returns which state, the status of an entry)
  and for the scenario of the specification, whose values are all computed exactly by IEEE
  doubles as well. Over the type \<open>double\<close> below the arithmetic is that of JavaScript:
  every result is rounded to the nearest double, overflows to an infinity, and may be
  \<^verbatim>\<open>NaN\<close>; the properties of computed amounts are stated there.
\<close>

subsection \<open>Types\<close>

datatype status = Open | Sold

text \<open>\<^verbatim>\<open>type HistoryPoint = { t; balance; openValue }\<close>; the fields carry a prefix, since
  \<^verbatim>\<open>balance\<close> is a field of the state too.\<close>

record 'n HistoryPoint =
  hp_t :: 'n
  hp_balance :: 'n
  hp_openValue :: 'n

text \<open>\<^verbatim>\<open>type Entry\<close>; a field marked \<^verbatim>\<open>?\<close> is an option. The field \<^verbatim>\<open>id\<close> is called
  \<open>entryId\<close> here.\<close>

record 'n Entry =
  entryId :: string
  name :: string
  entryMarketCap :: 'n
  currentMarketCap :: "'n option"
  solInvested :: 'n
  status :: status
  cumulativeBuySOL :: "'n option"
  cumulativeSellAmount :: "'n option"
  cumulativeSellReturnedSOL :: "'n option"
  realizedPnl :: "'n option"
  sellMarketCap :: "'n option"
  solReturned :: "'n option"
  pnl :: "'n option"
  pnlPercent :: "'n option"
  soldAt :: "string option"

record 'n AppState =
  startingBalance :: "'n option"
  balance :: 'n
  entries :: "'n Entry list"
  nextId :: nat
  history :: "'n HistoryPoint list option"

text \<open>An updater either returns a new state or returns \<^verbatim>\<open>s\<close> itself, with or without an
  \<^verbatim>\<open>alert\<close>. The outcome records which of the two happened and why.\<close>

datatype rejection =
  InsufficientBalance | PositionNotFound | PositionClosed | InvalidSellAmount | NegativeBalance

datatype outcome = Applied | Rejected rejection

subsection \<open>Helpers of the language\<close>

text \<open>\<^verbatim>\<open>Array.prototype.findIndex\<close>: the first index whose element satisfies the predicate,
  \<open>None\<close> for the \<^verbatim>\<open>-1\<close> of JavaScript.\<close>

fun findIndex :: "('a \<Rightarrow> bool) \<Rightarrow> 'a list \<Rightarrow> nat option" where
  "findIndex P [] = None"
| "findIndex P (x # xs) = (if P x then Some 0 else map_option Suc (findIndex P xs))"

text \<open>\<^verbatim>\<open>String(n)\<close> for a counter \<open>n\<close>: its decimal digits.\<close>

definition digit_char :: "nat \<Rightarrow> char" where
  "digit_char d = ''0123456789'' ! d"

fun String_num :: "nat \<Rightarrow> string" where
  "String_num n =
     (if n < 10 then [digit_char n] else String_num (n div 10) @ [digit_char (n mod 10)])"

declare String_num.simps [simp del]

text \<open>\<^verbatim>\<open>String.prototype.trim\<close>, for the white space of ASCII (tab, line feed, vertical tab,
  form feed, carriage return, space).\<close>

definition isSpace :: "char \<Rightarrow> bool" where
  "isSpace c = (c \<in> set [CHR 0x09, CHR 0x0A, CHR 0x0B, CHR 0x0C, CHR 0x0D, CHR 0x20])"

definition trim :: "string \<Rightarrow> string" where
  "trim str = rev (dropWhile isSpace (rev (dropWhile isSpace str)))"

text \<open>\<^verbatim>\<open>isFinitePos(n)\<close>: every real is a finite number, so only the sign is left.\<close>

definition isFinitePos :: "real \<Rightarrow> bool" where
  "isFinitePos n = (n > 0)"

text \<open>\<^verbatim>\<open>x ?? d\<close> on an optional number.\<close>

definition orElse :: "'a option \<Rightarrow> 'a \<Rightarrow> 'a" where
  "orElse x d = (case x of None \<Rightarrow> d | Some v \<Rightarrow> v)"

subsection \<open>Actions\<close>

text \<open>\<^verbatim>\<open>setStartingBalance\<close> and \<^verbatim>\<open>resetAll\<close> replace the state by an object literal
  without a \<^verbatim>\<open>history\<close> key.\<close>

definition setStartingBalance :: "'n \<Rightarrow> 'n AppState" where
  "setStartingBalance n =
     \<lparr>startingBalance = Some n, balance = n, entries = [], nextId = 1, history = None\<rparr>"

definition resetAll :: "real AppState" where
  "resetAll = \<lparr>startingBalance = None, balance = 0, entries = [], nextId = 1, history = None\<rparr>"

definition addEntry :: "real AppState \<Rightarrow> string \<Rightarrow> real \<Rightarrow> real \<Rightarrow> outcome \<times> real AppState" where
  "addEntry s nm mc sol =
     (if balance s < sol then (Rejected InsufficientBalance, s)
      else
        let entry = \<lparr>entryId = String_num (nextId s),
                     name = (if trim nm = [] then ''Entry #'' @ String_num (nextId s) else trim nm),
                     entryMarketCap = mc,
                     currentMarketCap = Some mc,
                     solInvested = sol,
                     status = Open,
                     cumulativeBuySOL = Some sol,
                     cumulativeSellAmount = Some 0,
                     cumulativeSellReturnedSOL = Some 0,
                     realizedPnl = Some 0,
                     sellMarketCap = None, solReturned = None, pnl = None,
                     pnlPercent = None, soldAt = None\<rparr>
        in (Applied, s\<lparr>balance := balance s - sol, entries := entry # entries s,
                        nextId := nextId s + 1\<rparr>))"

definition updateCurrentMcap :: "'n AppState \<Rightarrow> string \<Rightarrow> 'n \<Rightarrow> outcome \<times> 'n AppState" where
  "updateCurrentMcap s i mcap =
     (case findIndex (\<lambda>e. entryId e = i) (entries s) of
        None \<Rightarrow> (Rejected PositionNotFound, s)
      | Some idx \<Rightarrow>
          let e = entries s ! idx;
              updated = e\<lparr>currentMarketCap := Some mcap\<rparr>
          in (Applied, s\<lparr>entries := (entries s)[idx := updated]\<rparr>))"

text \<open>The argument \<^verbatim>\<open>updates\<close> of \<^verbatim>\<open>editEntry\<close>: each of the three keys may be absent.\<close>

record 'n Updates =
  upd_name :: "string option"
  upd_entryMarketCap :: "'n option"
  upd_solInvested :: "'n option"

definition editEntry :: "real AppState \<Rightarrow> string \<Rightarrow> real Updates \<Rightarrow> outcome \<times> real AppState" where
  "editEntry s i u =
     (case findIndex (\<lambda>e. entryId e = i) (entries s) of
        None \<Rightarrow> (Rejected PositionNotFound, s)
      | Some idx \<Rightarrow>
          let e = entries s ! idx in
          if status e \<noteq> Open then (Rejected PositionClosed, s)
          else
            let named = (case upd_name u of None \<Rightarrow> e | Some n \<Rightarrow> e\<lparr>name := n\<rparr>);
                marked = (case upd_entryMarketCap u of
                            None \<Rightarrow> named
                          | Some m \<Rightarrow> if isFinitePos m then named\<lparr>entryMarketCap := m\<rparr>
                                      else named)
            in (case upd_solInvested u of
                  None \<Rightarrow> (Applied, s\<lparr>balance := balance s, entries := (entries s)[idx := marked]\<rparr>)
                | Some v \<Rightarrow>
                    let delta = v - solInvested e in
                    if delta > 0 \<and> balance s < delta then (Rejected InsufficientBalance, s)
                    else (Applied,
                          s\<lparr>balance := balance s - delta,
                            entries := (entries s)[idx := marked\<lparr>solInvested := max 0 v\<rparr>]\<rparr>)))"

definition buyMore :: "real AppState \<Rightarrow> string \<Rightarrow> real \<Rightarrow> real \<Rightarrow> outcome \<times> real AppState" where
  "buyMore s i currentMcap buyAmountSOL =
     (case findIndex (\<lambda>e. entryId e = i) (entries s) of
        None \<Rightarrow> (Rejected PositionNotFound, s)
      | Some idx \<Rightarrow>
          let e = entries s ! idx in
          if status e \<noteq> Open then (Rejected PositionClosed, s)
          else if balance s < buyAmountSOL then (Rejected InsufficientBalance, s)
          else
            let curInv = solInvested e;
                newAvg = (entryMarketCap e * curInv + currentMcap * buyAmountSOL)
                           / (curInv + buyAmountSOL);
                updated = e\<lparr>entryMarketCap := newAvg,
                            currentMarketCap := Some currentMcap,
                            solInvested := curInv + buyAmountSOL,
                            cumulativeBuySOL := Some (orElse (cumulativeBuySOL e) 0 + buyAmountSOL)\<rparr>
            in (Applied, s\<lparr>balance := balance s - buyAmountSOL,
                            entries := (entries s)[idx := updated]\<rparr>))"

text \<open>\<^verbatim>\<open>partialSell\<close>; the last argument is the value of
  \<^verbatim>\<open>new Date().toISOString()\<close> at the call.\<close>

definition partialSell ::
  "real AppState \<Rightarrow> string \<Rightarrow> real \<Rightarrow> real \<Rightarrow> string \<Rightarrow> outcome \<times> real AppState" where
  "partialSell s i sellMcap sellAmountSOL now =
     (case findIndex (\<lambda>e. entryId e = i) (entries s) of
        None \<Rightarrow> (Rejected PositionNotFound, s)
      | Some idx \<Rightarrow>
          let e = entries s ! idx in
          if status e \<noteq> Open then (Rejected PositionClosed, s)
          else if sellAmountSOL \<le> 0 \<or> sellAmountSOL > solInvested e
            then (Rejected InvalidSellAmount, s)
          else
            let multiplier = sellMcap / entryMarketCap e;
                returned = sellAmountSOL * multiplier;
                realized = returned - sellAmountSOL;
                remaining = solInvested e - sellAmountSOL;
                updated = e\<lparr>currentMarketCap := Some sellMcap,
                            solInvested := remaining,
                            realizedPnl := Some (orElse (realizedPnl e) 0 + realized),
                            cumulativeSellAmount :=
                              Some (orElse (cumulativeSellAmount e) 0 + sellAmountSOL),
                            cumulativeSellReturnedSOL :=
                              Some (orElse (cumulativeSellReturnedSOL e) 0 + returned),
                            sellMarketCap := Some sellMcap\<rparr>;
                closed =
                  (if remaining \<le> 1 / 10 ^ 7 then
                     let p = orElse (realizedPnl updated) 0;
                         totalBuys = orElse (cumulativeBuySOL updated) 0
                     in updated\<lparr>status := Sold,
                                solReturned := cumulativeSellReturnedSOL updated,
                                pnl := Some p,
                                pnlPercent := Some (if totalBuys > 0 then (p / totalBuys) * 100 else 0),
                                soldAt := Some now,
                                solInvested := 0\<rparr>
                   else updated)
            in (Applied, s\<lparr>balance := balance s + returned,
                            entries := (entries s)[idx := closed]\<rparr>))"

definition adjustBalance :: "real AppState \<Rightarrow> real \<Rightarrow> outcome \<times> real AppState" where
  "adjustBalance s delta =
     (let next = balance s + delta in
      if next < 0 then (Rejected NegativeBalance, s) else (Applied, s\<lparr>balance := next\<rparr>))"

subsection \<open>The snapshot recorder\<close>

text \<open>The mark-to-market value of the open entries, as \<^verbatim>\<open>pushHistoryPoint\<close> folds it with
  \<^verbatim>\<open>filter\<close> and \<^verbatim>\<open>reduce\<close>.\<close>

definition openValueOf :: "real Entry list \<Rightarrow> real" where
  "openValueOf es =
     foldl (\<lambda>sum e.
              let cur = orElse (currentMarketCap e) (entryMarketCap e);
                  mult = (if cur > 0 then cur / entryMarketCap e else 1)
              in sum + solInvested e * mult)
       0 (filter (\<lambda>e. status e = Open) es)"

text \<open>\<^verbatim>\<open>pushHistoryPoint\<close>; the first argument is the value of \<^verbatim>\<open>Date.now()\<close> at the call.
  \<^verbatim>\<open>h[h.length - 1]\<close> is \<^verbatim>\<open>undefined\<close> on the empty series, and then the point is
  appended.\<close>

definition pushHistoryPoint :: "real \<Rightarrow> real AppState \<Rightarrow> real AppState" where
  "pushHistoryPoint now s =
     (let openValue = openValueOf (entries s);
          h = orElse (history s) [];
          point = \<lparr>hp_t = now, hp_balance = balance s, hp_openValue = openValue\<rparr>
      in if h \<noteq> []
            \<and> \<bar>hp_balance (last h) - hp_balance point\<bar> < 1 / 10 ^ 9
            \<and> \<bar>hp_openValue (last h) - hp_openValue point\<bar> < 1 / 10 ^ 9
         then s
         else s\<lparr>history := Some (h @ [point])\<rparr>)"

text \<open>The handler \<^verbatim>\<open>onReset\<close> of the graph: \<^verbatim>\<open>setState(s => ({ ...s, history: [] }))\<close>.\<close>

definition clearSeries :: "'n AppState \<Rightarrow> 'n AppState" where
  "clearSeries s = s\<lparr>history := Some []\<rparr>"

subsection \<open>Runs of actions\<close>

datatype 'n action =
    SetStartingBalance 'n
  | AddEntry string 'n 'n
  | UpdateCurrentMcap string 'n
  | EditEntry string "'n Updates"
  | BuyMore string 'n 'n
  | PartialSell string 'n 'n string
  | AdjustBalance 'n
  | ResetAll
  | PushHistoryPoint 'n
  | ClearSeries

fun step :: "real AppState \<Rightarrow> real action \<Rightarrow> outcome \<times> real AppState" where
  "step s (SetStartingBalance n) = (Applied, setStartingBalance n)"
| "step s (AddEntry nm mc sol) = addEntry s nm mc sol"
| "step s (UpdateCurrentMcap i mcap) = updateCurrentMcap s i mcap"
| "step s (EditEntry i u) = editEntry s i u"
| "step s (BuyMore i mcap amount) = buyMore s i mcap amount"
| "step s (PartialSell i mcap amount now) = partialSell s i mcap amount now"
| "step s (AdjustBalance delta) = adjustBalance s delta"
| "step s ResetAll = (Applied, resetAll)"
| "step s (PushHistoryPoint now) = (Applied, pushHistoryPoint now s)"
| "step s ClearSeries = (Applied, clearSeries s)"





subsection \<open>Properties of entries and states\<close>




subsection \<open>Loading the state\<close>













subsection \<open>The scenario of the specification and other sample inputs\<close>

definition scenarioA :: "real AppState" where
  "scenarioA = snd (addEntry (setStartingBalance 10) ''X'' 1000 2)"

definition scenarioB :: "real AppState" where
  "scenarioB = snd (buyMore scenarioA ''1'' 2000 2)"

definition scenarioC :: "outcome \<times> real AppState" where
  "scenarioC = partialSell scenarioB ''1'' 3000 4 ''2025-01-01T00:00:00.000Z''"








section \<open>Evaluating the scenario\<close>

lemmas action_defs =
  setStartingBalance_def resetAll_def addEntry_def updateCurrentMcap_def editEntry_def
  buyMore_def partialSell_def adjustBalance_def

lemmas helper_defs =
  String_num.simps digit_char_def trim_def isSpace_def orElse_def isFinitePos_def Let_def

lemma scenarioA_eq:
  "scenarioA =
     \<lparr>startingBalance = Some 10, balance = 8,
      entries = [\<lparr>entryId = ''1'', name = ''X'', entryMarketCap = 1000,
                  currentMarketCap = Some 1000, solInvested = 2, status = Open,
                  cumulativeBuySOL = Some 2, cumulativeSellAmount = Some 0,
                  cumulativeSellReturnedSOL = Some 0, realizedPnl = Some 0,
                  sellMarketCap = None, solReturned = None, pnl = None,
                  pnlPercent = None, soldAt = None\<rparr>],
      nextId = 2, history = None\<rparr>"
  by (simp add: scenarioA_def action_defs helper_defs)

lemma scenarioB_eq:
  "scenarioB =
     \<lparr>startingBalance = Some 10, balance = 6,
      entries = [\<lparr>entryId = ''1'', name = ''X'', entryMarketCap = 1500,
                  currentMarketCap = Some 2000, solInvested = 4, status = Open,
                  cumulativeBuySOL = Some 4, cumulativeSellAmount = Some 0,
                  cumulativeSellReturnedSOL = Some 0, realizedPnl = Some 0,
                  sellMarketCap = None, solReturned = None, pnl = None,
                  pnlPercent = None, soldAt = None\<rparr>],
      nextId = 2, history = None\<rparr>"
  by (simp add: scenarioB_def scenarioA_eq action_defs helper_defs)

text \<open>C1, as amended. In the sequence \<^verbatim>\<open>setStartingBalance(10)\<close>,
  \<^verbatim>\<open>addEntry("X", 1000, 2)\<close>, \<^verbatim>\<open>buyMore("1", 2000, 2)\<close>, \<^verbatim>\<open>partialSell("1", 3000, 4)\<close>
  the entry has the average entry market cap 1500 before the sell, so the sell has the
  multiplier \<open>3000 / 1500 = 2\<close>, returns 8 and realizes 4; the entry is closed with
  \<open>pnl = 4\<close>, and the balance is 14. The cumulative buys are \<open>2 + 2 = 4\<close>, so
  \<open>pnlPercent\<close> is \<open>4 / 4 * 100 = 100\<close>.\<close>

theorem scenario_C_partialSell_closes:
  "map entryMarketCap (entries scenarioB) = [1500]
   \<and> 3000 / entryMarketCap (hd (entries scenarioB)) = 2
   \<and> fst (partialSell scenarioB ''1'' 3000 4 now) = Applied
   \<and> balance (snd (partialSell scenarioB ''1'' 3000 4 now)) = 14
   \<and> entries (snd (partialSell scenarioB ''1'' 3000 4 now)) =
       [\<lparr>entryId = ''1'', name = ''X'', entryMarketCap = 1500,
         currentMarketCap = Some 3000, solInvested = 0, status = Sold,
         cumulativeBuySOL = Some 4, cumulativeSellAmount = Some 4,
         cumulativeSellReturnedSOL = Some 8, realizedPnl = Some 4,
         sellMarketCap = Some 3000, solReturned = Some 8, pnl = Some 4,
         pnlPercent = Some 100, soldAt = Some now\<rparr>]"
  by (simp add: scenarioB_eq partialSell_def helper_defs)

text \<open>The percentage of the closed entry is not \<open>4 / 6 * 100\<close>: the cumulative buys of the
  scenario are 4, not 6.\<close>

theorem scenario_C_pnlPercent_counterexample:
  "map pnlPercent (entries (snd scenarioC)) \<noteq> [Some (4 / 6 * 100)]
   \<and> map pnlPercent (entries (snd scenarioC)) = [Some 100]
   \<and> map cumulativeBuySOL (entries (snd scenarioC)) = [Some 4]"
  by (simp add: scenarioC_def scenarioB_eq partialSell_def helper_defs)

section \<open>Looking up an entry\<close>




lemma not_Open_iff [simp]: "(st \<noteq> Open) = (st = Sold)"
  by (cases st) simp_all

section \<open>Closed entries and their invested amount\<close>









section \<open>Marking an entry\<close>

lemma updateCurrentMcap_sets_mark_only:
  "findIndex (\<lambda>e. entryId e = i) (entries s) = Some idx \<Longrightarrow>
   updateCurrentMcap s i mcap =
     (Applied, s\<lparr>entries := (entries s)[idx := (entries s ! idx)\<lparr>currentMarketCap := Some mcap\<rparr>]\<rparr>)"
  by (simp add: updateCurrentMcap_def Let_def)

text \<open>C3. \<^verbatim>\<open>updateCurrentMcap\<close> has no test of the status, unlike \<^verbatim>\<open>editEntry\<close>,
  \<^verbatim>\<open>buyMore\<close> and \<^verbatim>\<open>partialSell\<close>: on the closed entry of the scenario it is applied and
  replaces the current market cap 3000 by 5000.\<close>

theorem updateCurrentMcap_rewrites_sold_entry:
  "map status (entries (snd scenarioC)) = [Sold]
   \<and> map currentMarketCap (entries (snd scenarioC)) = [Some 3000]
   \<and> fst (updateCurrentMcap (snd scenarioC) ''1'' 5000) = Applied
   \<and> map status (entries (snd (updateCurrentMcap (snd scenarioC) ''1'' 5000))) = [Sold]
   \<and> map currentMarketCap (entries (snd (updateCurrentMcap (snd scenarioC) ''1'' 5000)))
       = [Some 5000]"
  by (simp add: scenarioC_def scenarioB_eq partialSell_def updateCurrentMcap_def helper_defs)

section \<open>Rejected actions\<close>

text \<open>C6. An action that is not applied returns the state it was given: the balance, the
  entries, the id counter and the history are those of before.\<close>

theorem rejected_leaves_state:
  "fst (step s a) \<noteq> Applied \<Longrightarrow> snd (step s a) = s"
  by (cases a) (auto simp: action_defs Let_def split: option.splits if_splits)

theorem rejected_leaves_state_witness:
  "fst (step scenarioA (AddEntry ''Y'' 1000 9)) = Rejected InsufficientBalance
   \<and> snd (step scenarioA (AddEntry ''Y'' 1000 9)) = scenarioA
   \<and> fst (step scenarioB (PartialSell ''1'' 3000 5 ''now'')) = Rejected InvalidSellAmount
   \<and> snd (step scenarioB (PartialSell ''1'' 3000 5 ''now'')) = scenarioB
   \<and> fst (step scenarioB (BuyMore ''1'' 3000 7)) = Rejected InsufficientBalance
   \<and> snd (step scenarioB (BuyMore ''1'' 3000 7)) = scenarioB
   \<and> fst (step scenarioB (AdjustBalance (- 7))) = Rejected NegativeBalance
   \<and> snd (step scenarioB (AdjustBalance (- 7))) = scenarioB"
proof -
  have a: "fst (step scenarioA (AddEntry ''Y'' 1000 9)) = Rejected InsufficientBalance"
    by (simp add: scenarioA_eq addEntry_def)
  have b: "fst (step scenarioB (PartialSell ''1'' 3000 5 ''now'')) = Rejected InvalidSellAmount"
    by (simp add: scenarioB_eq partialSell_def Let_def)
  have c: "fst (step scenarioB (BuyMore ''1'' 3000 7)) = Rejected InsufficientBalance"
    by (simp add: scenarioB_eq buyMore_def Let_def)
  have d: "fst (step scenarioB (AdjustBalance (- 7))) = Rejected NegativeBalance"
    by (simp add: scenarioB_eq adjustBalance_def Let_def)
  from a have a': "snd (step scenarioA (AddEntry ''Y'' 1000 9)) = scenarioA"
    by (intro rejected_leaves_state) simp
  from b have b': "snd (step scenarioB (PartialSell ''1'' 3000 5 ''now'')) = scenarioB"
    by (intro rejected_leaves_state) simp
  from c have c': "snd (step scenarioB (BuyMore ''1'' 3000 7)) = scenarioB"
    by (intro rejected_leaves_state) simp
  from d have d': "snd (step scenarioB (AdjustBalance (- 7))) = scenarioB"
    by (intro rejected_leaves_state) simp
  from a a' b b' c c' d d' show ?thesis by blast
qed

section \<open>Loading\<close>




end
